theory Spec2Isabelle
  imports Main "HOL-Library.Word"
begin

section \<open>The JNI bridge llama\_bridge.cpp\<close>

text \<open>
  The bridge owns two process-wide pointers, \<^verbatim>\<open>g_model\<close> and \<^verbatim>\<open>g_ctx\<close>, and exports four
  functions to the managed side. Everything else it does is a call into a collaborator:
  the llama.cpp library, the Android log, and the streaming callback object. The model
  keeps the two pointers as a record that every function takes and returns, and returns
  the collaborator calls a function makes, in program order, as a list.

  A pointer is \<open>None\<close> when it is \<^verbatim>\<open>nullptr\<close> and \<open>Some h\<close> otherwise. A \<^verbatim>\<open>jstring\<close> is a
  \<open>string\<close>; the JNI marshalling (\<^verbatim>\<open>GetStringUTFChars\<close>, \<^verbatim>\<open>ReleaseStringUTFChars\<close>,
  \<^verbatim>\<open>NewStringUTF\<close>, \<^verbatim>\<open>GetObjectClass\<close>, \<^verbatim>\<open>GetMethodID\<close>) moves values across the boundary
  and is not recorded. A \<^verbatim>\<open>jint\<close> is a 32-bit word.
\<close>

type_synonym handle = nat

type_synonym jint = "32 word"

record globals =
  g_model :: "handle option"
  g_ctx :: "handle option"

datatype log_arg = Arg_s string | Arg_d jint

text \<open>
  The calls the bridge makes on the library and on the log. The two allocating calls carry
  their relevant parameters: the path and \<^verbatim>\<open>n_gpu_layers\<close> for the model, and the model,
  \<^verbatim>\<open>n_ctx\<close>, \<^verbatim>\<open>n_batch\<close> and \<^verbatim>\<open>n_threads\<close> for the context. The log calls carry the format
  string and its arguments.
\<close>

datatype effect =
    LOGI string "log_arg list"
  | LOGE string "log_arg list"
  | Llama_backend_init
  | Llama_model_load_from_file string int
  | Llama_init_from_model handle jint int int
  | Llama_model_free handle
  | Llama_free handle
  | Llama_backend_free

text \<open>
  What the library answers to the two calls of \<^verbatim>\<open>loadModel\<close> that can fail. The library
  is outside the repository, so its answers are an input of the call: any pointer, null
  or not.
\<close>

record llama_outcome =
  model_result :: "handle option"
  ctx_result :: "handle option"

text \<open>
  The invocations made on the \<^verbatim>\<open>LlamaStreamCallback\<close> object, each with its string
  argument. An invocation is taken to return normally to the bridge.
\<close>

datatype cb_event =
    is_OnToken: OnToken string
  | is_OnComplete: OnComplete string
  | is_OnError: OnError string

subsection \<open>loadModel\<close>

text \<open>
  The first argument of every function is the value of the macro \<^verbatim>\<open>LLAMA_AVAILABLE\<close>,
  which selects the branch of each \<^verbatim>\<open>#if\<close>. The globals exist only in the available build;
  in the other build the record is passed through untouched.
\<close>

definition loadModel ::
  "bool \<Rightarrow> llama_outcome \<Rightarrow> string \<Rightarrow> jint \<Rightarrow> globals \<Rightarrow> bool \<times> globals \<times> effect list" where
  "loadModel LLAMA_AVAILABLE lib modelPath nCtx g =
    (if LLAMA_AVAILABLE then
       let fx1 = [LOGI ''Loading model: %s (nCtx=%d)'' [Arg_s modelPath, Arg_d nCtx],
                  Llama_backend_init,
                  Llama_model_load_from_file modelPath 0];
           g1 = g\<lparr>g_model := model_result lib\<rparr>
       in (case g_model g1 of
             None \<Rightarrow> (False, g1, fx1 @ [LOGE ''Failed to load model'' []])
           | Some m \<Rightarrow>
               let fx2 = fx1 @ [Llama_init_from_model m nCtx 512 4];
                   g2 = g1\<lparr>g_ctx := ctx_result lib\<rparr>
               in (case g_ctx g2 of
                     None \<Rightarrow>
                       (False, g2\<lparr>g_model := None\<rparr>,
                        fx2 @ [LOGE ''Failed to create context'' [], Llama_model_free m])
                   | Some c \<Rightarrow>
                       (True, g2, fx2 @ [LOGI ''Model loaded successfully'' []])))
     else (False, g, [LOGE ''llama.cpp not available in this build'' []]))"

subsection \<open>unloadModel\<close>

definition unloadModel :: "bool \<Rightarrow> globals \<Rightarrow> globals \<times> effect list" where
  "unloadModel LLAMA_AVAILABLE g =
    (if LLAMA_AVAILABLE then
       let (g1, fx1) = (case g_ctx g of
                          Some c \<Rightarrow> (g\<lparr>g_ctx := None\<rparr>, [Llama_free c])
                        | None \<Rightarrow> (g, []));
           (g2, fx2) = (case g_model g1 of
                          Some m \<Rightarrow> (g1\<lparr>g_model := None\<rparr>, fx1 @ [Llama_model_free m])
                        | None \<Rightarrow> (g1, fx1))
       in (g2, fx2 @ [Llama_backend_free, LOGI ''Model unloaded'' []])
     else (g, []))"

subsection \<open>chatCompletion\<close>

text \<open>The two raw string literals, line by line as they stand in the source.\<close>

definition raw_lines :: "string list \<Rightarrow> string" where
  "raw_lines ls = (case ls of [] \<Rightarrow> [] | l # rest \<Rightarrow> foldl (\<lambda>acc x. acc @ [CHR 0x0A] @ x) l rest)"

definition completion_response :: string where
  \<open>completion_response = raw_lines
    [''{'',
     ''        "id": "local-0",'',
     ''        "object": "chat.completion",'',
     ''        "model": "qwen3-4b",'',
     ''        "choices": [{'',
     ''            "index": 0,'',
     ''            "message": {'',
     ''                "role": "assistant",'',
     ''                "content": "Local model inference is not yet fully implemented."'',
     ''            },'',
     ''            "finish_reason": "stop"'',
     ''        }],'',
     ''        "usage": {"prompt_tokens": 0, "completion_tokens": 0, "total_tokens": 0}'',
     ''    }'']\<close>

definition chatCompletion :: "bool \<Rightarrow> string \<Rightarrow> globals \<Rightarrow> string \<times> globals" where
  \<open>chatCompletion LLAMA_AVAILABLE requestJson g =
    (if LLAMA_AVAILABLE then
       if g_model g = None \<or> g_ctx g = None then (''{"error":"Model not loaded"}'', g)
       else
         let request = requestJson;
             response = completion_response
         in (response, g)
     else (''{"error":"llama.cpp not available in this build"}'', g))\<close>

subsection \<open>chatCompletionStream\<close>

definition stream_response :: string where
  \<open>stream_response = raw_lines
    [''{'',
     ''        "id": "local-stream-0",'',
     ''        "object": "chat.completion",'',
     ''        "model": "qwen3-4b",'',
     ''        "choices": [{'',
     ''            "index": 0,'',
     ''            "message": {'',
     ''                "role": "assistant",'',
     ''                "content": "Local model streaming is not yet fully implemented."'',
     ''            },'',
     ''            "finish_reason": "stop"'',
     ''        }]'',
     ''    }'']\<close>

definition chatCompletionStream :: "bool \<Rightarrow> string \<Rightarrow> globals \<Rightarrow> cb_event list \<times> globals" where
  \<open>chatCompletionStream LLAMA_AVAILABLE requestJson g =
    (if LLAMA_AVAILABLE then
       if g_model g = None \<or> g_ctx g = None then ([OnError ''Model not loaded''], g)
       else
         let response = stream_response
         in ([OnToken ''Local model streaming is not yet fully implemented.'',
              OnComplete response], g)
     else ([OnError ''llama.cpp not available''], g))\<close>

section \<open>Vocabulary of the properties\<close>

subsection \<open>Lifecycle\<close>

text \<open>
  A pair is loaded when the guard \<^verbatim>\<open>!g_model || !g_ctx\<close> of the two completion functions
  is false. The handles are paired when both are null or both are non-null.
\<close>

definition loaded :: "globals \<Rightarrow> bool" where
  "loaded g = (\<not> (g_model g = None \<or> g_ctx g = None))"

definition paired :: "globals \<Rightarrow> bool" where
  "paired g = ((g_model g = None) = (g_ctx g = None))"

definition unloaded :: globals where
  "unloaded = \<lparr>g_model = None, g_ctx = None\<rparr>"

text \<open>A call of one of the four exported functions, and its effect on the globals.\<close>

datatype call =
    LoadModel llama_outcome string jint
  | UnloadModel
  | ChatCompletion string
  | ChatCompletionStream string

fun step :: "bool \<Rightarrow> globals \<Rightarrow> call \<Rightarrow> globals" where
  "step av g (LoadModel lib modelPath nCtx) = fst (snd (loadModel av lib modelPath nCtx g))"
| "step av g UnloadModel = fst (unloadModel av g)"
| "step av g (ChatCompletion requestJson) = snd (chatCompletion av requestJson g)"
| "step av g (ChatCompletionStream requestJson) = snd (chatCompletionStream av requestJson g)"

definition run :: "bool \<Rightarrow> globals \<Rightarrow> call list \<Rightarrow> globals" where
  "run av g cs = foldl (step av) g cs"

fun is_LoadModel :: "call \<Rightarrow> bool" where
  "is_LoadModel (LoadModel lib modelPath nCtx) = True"
| "is_LoadModel c = False"

text \<open>
  A sequence of calls in which every \<^verbatim>\<open>loadModel\<close> finds the context pointer null.
\<close>

fun guarded :: "bool \<Rightarrow> globals \<Rightarrow> call list \<Rightarrow> bool" where
  "guarded av g [] = True"
| "guarded av g (c # cs) =
    ((if is_LoadModel c then g_ctx g = None else True) \<and> guarded av (step av g c) cs)"

text \<open>The handles a list of library calls releases, in order.\<close>

fun released :: "effect list \<Rightarrow> effect list" where
  "released [] = []"
| "released (Llama_free c # fx) = Llama_free c # released fx"
| "released (Llama_model_free m # fx) = Llama_model_free m # released fx"
| "released (e # fx) = released fx"

subsection \<open>Callback traces\<close>

fun tokens_then_complete :: "cb_event list \<Rightarrow> bool" where
  "tokens_then_complete [OnComplete r] = True"
| "tokens_then_complete (OnToken t # tr) = tokens_then_complete tr"
| "tokens_then_complete tr = False"

fun single_error :: "cb_event list \<Rightarrow> bool" where
  "single_error [OnError m] = True"
| "single_error tr = False"

definition valid_stream_trace :: "cb_event list \<Rightarrow> bool" where
  "valid_stream_trace tr = (tokens_then_complete tr \<noteq> single_error tr)"

fun no_token_after_terminal :: "cb_event list \<Rightarrow> bool" where
  "no_token_after_terminal [] = True"
| "no_token_after_terminal (OnToken t # tr) = no_token_after_terminal tr"
| "no_token_after_terminal (e # tr) = (filter is_OnToken tr = [])"

definition invocations :: "(cb_event \<Rightarrow> bool) \<Rightarrow> cb_event list \<Rightarrow> nat" where
  "invocations which tr = length (filter which tr)"

subsection \<open>Payloads as the managed side reads them\<close>

text \<open>
  The bridge builds its payloads as text. To say what a payload holds, it is read back
  by a reader of JSON text: objects, arrays, strings with the short escapes, integers and
  the three literals. The reader refuses what it does not cover (fractions, exponents,
  \<^verbatim>\<open>\u\<close> escapes), so a payload it accepts is well formed. The recursion is bounded by the
  length of the text.
\<close>

datatype json =
    JNull
  | JBool bool
  | JNumber int
  | JString string
  | JArray "json list"
  | JObject "(string \<times> json) list"

definition is_ws :: "char \<Rightarrow> bool" where
  "is_ws c = (c = CHR '' '' \<or> c = CHR 0x0A \<or> c = CHR 0x0D \<or> c = CHR 0x09)"

definition skip_ws :: "string \<Rightarrow> string" where
  "skip_ws s = dropWhile is_ws s"

definition is_digit :: "char \<Rightarrow> bool" where
  "is_digit c = (c \<in> set ''0123456789'')"

definition digit_val :: "char \<Rightarrow> int" where
  "digit_val c = int (of_char c) - 48"

definition unescape :: "char \<Rightarrow> char option" where
  \<open>unescape e =
    (if e = CHR ''"'' then Some (CHR ''"'')
     else if e = CHR 0x5C then Some (CHR 0x5C)
     else if e = CHR ''/'' then Some (CHR ''/'')
     else if e = CHR ''b'' then Some (CHR 0x08)
     else if e = CHR ''f'' then Some (CHR 0x0C)
     else if e = CHR ''n'' then Some (CHR 0x0A)
     else if e = CHR ''r'' then Some (CHR 0x0D)
     else if e = CHR ''t'' then Some (CHR 0x09)
     else None)\<close>

fun parse_chars :: "string \<Rightarrow> (string \<times> string) option" where
  "parse_chars [] = None"
| "parse_chars [c] = (if c = CHR 0x22 then Some ([], []) else None)"
| "parse_chars (c # e # cs) =
    (if c = CHR 0x22 then Some ([], e # cs)
     else if c = CHR 0x5C then
       (case unescape e of
          None \<Rightarrow> None
        | Some d \<Rightarrow> map_option (\<lambda>(s, r). (d # s, r)) (parse_chars cs))
     else if (of_char c :: nat) < 32 then None
     else map_option (\<lambda>(s, r). (c # s, r)) (parse_chars (e # cs)))"

definition parse_number :: "string \<Rightarrow> (int \<times> string) option" where
  "parse_number s =
    (let (neg, body) = (case s of c # cs \<Rightarrow> if c = CHR ''-'' then (True, cs) else (False, s) | [] \<Rightarrow> (False, s));
         ds = takeWhile is_digit body;
         r = dropWhile is_digit body;
         n = foldl (\<lambda>acc d. 10 * acc + digit_val d) 0 ds
     in if ds = [] \<or> (length ds > 1 \<and> hd ds = CHR ''0'') then None
        else if r \<noteq> [] \<and> hd r \<in> set ''.eE'' then None
        else Some (if neg then - n else n, r))"

definition expect :: "string \<Rightarrow> string \<Rightarrow> string option" where
  "expect w s = (if take (length w) s = w then Some (drop (length w) s) else None)"

fun parse_value :: "nat \<Rightarrow> string \<Rightarrow> (json \<times> string) option"
and parse_elements :: "nat \<Rightarrow> string \<Rightarrow> (json list \<times> string) option"
and parse_members :: "nat \<Rightarrow> string \<Rightarrow> ((string \<times> json) list \<times> string) option"
where
  "parse_value 0 s = None"
| "parse_value (Suc n) s =
    (case skip_ws s of
       [] \<Rightarrow> None
     | c # cs \<Rightarrow>
         if c = CHR ''{'' then
           (case skip_ws cs of
              [] \<Rightarrow> None
            | d # ds \<Rightarrow>
                if d = CHR ''}'' then Some (JObject [], ds)
                else map_option (\<lambda>(kvs, r). (JObject kvs, r)) (parse_members n (d # ds)))
         else if c = CHR ''['' then
           (case skip_ws cs of
              [] \<Rightarrow> None
            | d # ds \<Rightarrow>
                if d = CHR '']'' then Some (JArray [], ds)
                else map_option (\<lambda>(vs, r). (JArray vs, r)) (parse_elements n (d # ds)))
         else if c = CHR 0x22 then map_option (\<lambda>(s, r). (JString s, r)) (parse_chars cs)
         else if c = CHR ''t'' then map_option (\<lambda>r. (JBool True, r)) (expect ''rue'' cs)
         else if c = CHR ''f'' then map_option (\<lambda>r. (JBool False, r)) (expect ''alse'' cs)
         else if c = CHR ''n'' then map_option (\<lambda>r. (JNull, r)) (expect ''ull'' cs)
         else map_option (\<lambda>(i, r). (JNumber i, r)) (parse_number (c # cs)))"
| "parse_elements 0 s = None"
| "parse_elements (Suc n) s =
    (case parse_value n s of
       None \<Rightarrow> None
     | Some (v, r) \<Rightarrow>
         (case skip_ws r of
            [] \<Rightarrow> None
          | c # cs \<Rightarrow>
              if c = CHR '']'' then Some ([v], cs)
              else if c = CHR '','' then map_option (\<lambda>(vs, r'). (v # vs, r')) (parse_elements n cs)
              else None))"
| "parse_members 0 s = None"
| "parse_members (Suc n) s =
    (case skip_ws s of
       [] \<Rightarrow> None
     | q # ks \<Rightarrow>
         if q \<noteq> CHR 0x22 then None
         else
           (case parse_chars ks of
              None \<Rightarrow> None
            | Some (k, r) \<Rightarrow>
                (case skip_ws r of
                   [] \<Rightarrow> None
                 | c # cs \<Rightarrow>
                     if c \<noteq> CHR '':'' then None
                     else
                       (case parse_value n cs of
                          None \<Rightarrow> None
                        | Some (v, r') \<Rightarrow>
                            (case skip_ws r' of
                               [] \<Rightarrow> None
                             | e # es \<Rightarrow>
                                 if e = CHR ''}'' then Some ([(k, v)], es)
                                 else if e = CHR '','' then
                                   map_option (\<lambda>(kvs, r''). ((k, v) # kvs, r'')) (parse_members n es)
                                 else None)))))"

definition parse_json :: "string \<Rightarrow> json option" where
  "parse_json s =
    (case parse_value (length s) s of
       None \<Rightarrow> None
     | Some (v, r) \<Rightarrow> if skip_ws r = [] then Some v else None)"



text \<open>A path into a payload: member names and array positions.\<close>

datatype selector = Key string | Index nat

fun select1 :: "selector \<Rightarrow> json \<Rightarrow> json option" where
  "select1 (Key k) (JObject kvs) = map_of kvs k"
| "select1 (Index i) (JArray vs) = (if i < length vs then Some (vs ! i) else None)"
| "select1 s v = None"

fun at_path :: "selector list \<Rightarrow> json \<Rightarrow> json option" where
  "at_path [] v = Some v"
| "at_path (s # p) v = (case select1 s v of None \<Rightarrow> None | Some w \<Rightarrow> at_path p w)"

definition payload_at :: "selector list \<Rightarrow> string \<Rightarrow> json option" where
  "payload_at p s = (case parse_json s of None \<Rightarrow> None | Some v \<Rightarrow> at_path p v)"

text \<open>The message of an error-shaped payload: an object whose only member is \<^verbatim>\<open>error\<close>.\<close>

definition error_message :: "string \<Rightarrow> string option" where
  "error_message s =
    (case parse_json s of
       Some (JObject [(k, JString m)]) \<Rightarrow> if k = ''error'' then Some m else None
     | _ \<Rightarrow> None)"

definition completion_response_json :: json where
  "completion_response_json =
    JObject
     [(''id'', JString ''local-0''),
      (''object'', JString ''chat.completion''),
      (''model'', JString ''qwen3-4b''),
      (''choices'',
       JArray
        [JObject
          [(''index'', JNumber 0),
           (''message'',
            JObject
             [(''role'', JString ''assistant''),
              (''content'', JString ''Local model inference is not yet fully implemented.'')]),
           (''finish_reason'', JString ''stop'')]]),
      (''usage'',
       JObject
        [(''prompt_tokens'', JNumber 0), (''completion_tokens'', JNumber 0),
         (''total_tokens'', JNumber 0)])]"

definition stream_response_json :: json where
  "stream_response_json =
    JObject
     [(''id'', JString ''local-stream-0''),
      (''object'', JString ''chat.completion''),
      (''model'', JString ''qwen3-4b''),
      (''choices'',
       JArray
        [JObject
          [(''index'', JNumber 0),
           (''message'',
            JObject
             [(''role'', JString ''assistant''),
              (''content'', JString ''Local model streaming is not yet fully implemented.'')]),
           (''finish_reason'', JString ''stop'')]])]"

section \<open>Properties\<close>

subsection \<open>Reading the fixed payloads\<close>

lemma parse_completion_response:
  "parse_json completion_response = Some completion_response_json"
  by code_simp

lemma parse_stream_response:
  "parse_json stream_response = Some stream_response_json"
  by code_simp

lemma error_message_not_loaded:
  \<open>error_message ''{"error":"Model not loaded"}'' = Some ''Model not loaded''\<close>
  by code_simp

lemma error_message_not_available:
  \<open>error_message ''{"error":"llama.cpp not available in this build"}'' =
    Some ''llama.cpp not available in this build''\<close>
  by code_simp

lemma completion_payload_fields:
  "payload_at [Key ''choices'', Index 0, Key ''message'', Key ''role''] completion_response =
     Some (JString ''assistant'')"
  "payload_at [Key ''choices'', Index 0, Key ''message'', Key ''content''] completion_response =
     Some (JString ''Local model inference is not yet fully implemented.'')"
  "payload_at [Key ''choices'', Index 0, Key ''finish_reason''] completion_response =
     Some (JString ''stop'')"
  "payload_at [Key ''usage'', Key ''prompt_tokens''] completion_response = Some (JNumber 0)"
  "payload_at [Key ''usage'', Key ''completion_tokens''] completion_response = Some (JNumber 0)"
  "payload_at [Key ''usage'', Key ''total_tokens''] completion_response = Some (JNumber 0)"
  by (simp_all add: payload_at_def parse_completion_response completion_response_json_def)

subsection \<open>unloadModel\<close>

text \<open>
  C8. With both pointers null, \<^verbatim>\<open>unloadModel\<close> hands the globals back as they were and
  releases no handle: its only calls are \<^verbatim>\<open>llama_backend_free\<close> and the log line. In the
  build without the library it does nothing at all. From every state, in the build with the
  library, both pointers are null afterwards, so a second call in a row is again the call on
  nothing loaded. The calls it makes are, in this order: \<^verbatim>\<open>llama_free\<close> on the context if
  there is one, \<^verbatim>\<open>llama_model_free\<close> on the model if there is one, \<^verbatim>\<open>llama_backend_free\<close>.
\<close>

theorem unload_idempotent:
  "(g_model g = None \<and> g_ctx g = None \<longrightarrow>
      unloadModel True g = (g, [Llama_backend_free, LOGI ''Model unloaded'' []]) \<and>
      released (snd (unloadModel True g)) = []) \<and>
   unloadModel False g = (g, []) \<and>
   fst (unloadModel True g) = unloaded \<and>
   unloadModel True (fst (unloadModel True g)) =
     (fst (unloadModel True g), [Llama_backend_free, LOGI ''Model unloaded'' []]) \<and>
   snd (unloadModel True g) =
     (case g_ctx g of None \<Rightarrow> [] | Some c \<Rightarrow> [Llama_free c]) @
     (case g_model g of None \<Rightarrow> [] | Some m \<Rightarrow> [Llama_model_free m]) @
     [Llama_backend_free, LOGI ''Model unloaded'' []]"
  by (cases g; cases "g_ctx g"; cases "g_model g")
     (simp_all add: unloadModel_def unloaded_def)

theorem unload_idempotent_witness:
  "unloadModel True unloaded = (unloaded, [Llama_backend_free, LOGI ''Model unloaded'' []]) \<and>
   unloadModel True (fst (unloadModel True unloaded)) =
     (unloaded, [Llama_backend_free, LOGI ''Model unloaded'' []]) \<and>
   unloadModel True \<lparr>g_model = Some 1, g_ctx = Some 2\<rparr> =
     (unloaded, [Llama_free 2, Llama_model_free 1, Llama_backend_free, LOGI ''Model unloaded'' []])"
proof -
  have u: "g_model unloaded = None \<and> g_ctx unloaded = None"
    by (simp add: unloaded_def)
  have a: "unloadModel True unloaded = (unloaded, [Llama_backend_free, LOGI ''Model unloaded'' []])"
    using u unload_idempotent [of unloaded] by blast
  have b: "fst (unloadModel True \<lparr>g_model = Some 1, g_ctx = Some 2\<rparr>) = unloaded"
    "snd (unloadModel True \<lparr>g_model = Some 1, g_ctx = Some 2\<rparr>) =
       [Llama_free 2, Llama_model_free 1, Llama_backend_free, LOGI ''Model unloaded'' []]"
    using unload_idempotent [of "\<lparr>g_model = Some 1, g_ctx = Some 2\<rparr>"] by simp_all
  show ?thesis
    using a b by (simp add: prod_eq_iff)
qed

subsection \<open>loadModel and the pairing of the two pointers\<close>

text \<open>
  What holds of \<^verbatim>\<open>loadModel\<close> in every state: a call that returns true leaves both pointers
  non-null, holding what the library returned.
\<close>

lemma load_success_loaded:
  "loadModel av lib modelPath nCtx g = (True, g', fx) \<Longrightarrow>
     av \<and> loaded g' \<and> g_model g' = model_result lib \<and> g_ctx g' = ctx_result lib"
  by (auto simp add: loadModel_def loaded_def Let_def split: if_splits option.splits)

text \<open>
  What holds when \<^verbatim>\<open>loadModel\<close> is entered with nothing loaded: a failing call hands the
  globals back as they were and has released the model it acquired, if it acquired one.
\<close>

lemma load_failure_from_unloaded:
  "g_model g = None \<Longrightarrow> g_ctx g = None \<Longrightarrow>
   loadModel True lib modelPath nCtx g = (False, g', fx) \<Longrightarrow>
     g' = g \<and>
     released fx = (case model_result lib of None \<Rightarrow> [] | Some m \<Rightarrow> [Llama_model_free m])"
  by (cases g) (auto simp add: loadModel_def Let_def split: if_splits option.splits)

text \<open>
  The pairing of the two pointers is kept by every call except a \<^verbatim>\<open>loadModel\<close> entered
  with a context still held, and so by every sequence of calls without such a call. In the
  build without the library no call touches the globals.
\<close>

lemma step_paired:
  "paired g \<Longrightarrow> (if is_LoadModel c then g_ctx g = None else True) \<Longrightarrow> paired (step True g c)"
  by (cases c)
     (auto simp add: loadModel_def unloadModel_def chatCompletion_def chatCompletionStream_def
        paired_def Let_def split: if_splits option.splits)

lemma run_paired_guarded:
  "paired g \<Longrightarrow> guarded True g cs \<Longrightarrow> paired (run True g cs)"
  unfolding run_def
proof (induction cs arbitrary: g)
  case Nil
  then show ?case by simp
next
  case (Cons c cs)
  from Cons.prems have "paired (step True g c)" and "guarded True (step True g c) cs"
    using step_paired [of g c] by simp_all
  then show ?case using Cons.IH by simp
qed

lemma step_unavailable:
  "step False g c = g"
  by (cases c)
     (simp_all add: loadModel_def unloadModel_def chatCompletion_def chatCompletionStream_def)

lemma run_unavailable:
  "run False g cs = g"
  unfolding run_def by (induction cs) (simp_all add: step_unavailable)

text \<open>
  C1. The claim is that once a load has succeeded the two pointers stay paired over every
  later sequence of calls, a second \<^verbatim>\<open>loadModel\<close> included. The code at that input: the
  first \<^verbatim>\<open>loadModel\<close> returns true with model 1 and context 2; a second \<^verbatim>\<open>loadModel\<close>, whose
  file the library cannot load, returns false after storing the null result in \<^verbatim>\<open>g_model\<close>,
  and \<^verbatim>\<open>g_ctx\<close> still holds context 2. The pointers are no longer paired.
\<close>

theorem reload_failure_breaks_pairing:
  "fst (loadModel True \<lparr>model_result = Some 1, ctx_result = Some 2\<rparr> ''model.gguf'' 2048 unloaded) = True \<and>
   fst (loadModel True \<lparr>model_result = None, ctx_result = None\<rparr> ''missing.gguf'' 2048
          \<lparr>g_model = Some 1, g_ctx = Some 2\<rparr>) = False \<and>
   run True unloaded
     [LoadModel \<lparr>model_result = Some 1, ctx_result = Some 2\<rparr> ''model.gguf'' 2048,
      LoadModel \<lparr>model_result = None, ctx_result = None\<rparr> ''missing.gguf'' 2048] =
     \<lparr>g_model = None, g_ctx = Some 2\<rparr> \<and>
   \<not> paired \<lparr>g_model = None, g_ctx = Some 2\<rparr>"
  by (simp add: run_def loadModel_def unloaded_def paired_def Let_def)

text \<open>
  C2. The claim is that every failing \<^verbatim>\<open>loadModel\<close> leaves the globals as they were and
  leaks nothing. The code at two failing calls entered with model 1 and context 2 loaded:
  when the library cannot load the file, the call returns false with \<^verbatim>\<open>g_model\<close> null and
  \<^verbatim>\<open>g_ctx\<close> still 2; when the library loads model 3 and cannot create a context, the call
  frees model 3 and returns false with both pointers null. In both, the globals differ from
  what they were, and neither model 1 nor context 2 is released.
\<close>

theorem reload_failure_not_atomic:
  "loadModel True \<lparr>model_result = None, ctx_result = None\<rparr> ''missing.gguf'' 2048
     \<lparr>g_model = Some 1, g_ctx = Some 2\<rparr> =
     (False, \<lparr>g_model = None, g_ctx = Some 2\<rparr>,
      [LOGI ''Loading model: %s (nCtx=%d)'' [Arg_s ''missing.gguf'', Arg_d 2048],
       Llama_backend_init,
       Llama_model_load_from_file ''missing.gguf'' 0,
       LOGE ''Failed to load model'' []]) \<and>
   loadModel True \<lparr>model_result = Some 3, ctx_result = None\<rparr> ''model.gguf'' 2048
     \<lparr>g_model = Some 1, g_ctx = Some 2\<rparr> =
     (False, \<lparr>g_model = None, g_ctx = None\<rparr>,
      [LOGI ''Loading model: %s (nCtx=%d)'' [Arg_s ''model.gguf'', Arg_d 2048],
       Llama_backend_init,
       Llama_model_load_from_file ''model.gguf'' 0,
       Llama_init_from_model 3 2048 512 4,
       LOGE ''Failed to create context'' [],
       Llama_model_free 3])"
  by (simp add: loadModel_def Let_def)

subsection \<open>chatCompletion\<close>

text \<open>
  C4, as stated, fails: it speaks of every call made while no pair is loaded, and in the
  build without the library no pair is ever loaded, yet there \<^verbatim>\<open>chatCompletion\<close> does not
  return \<^verbatim>\<open>{"error":"Model not loaded"}\<close>. At the request \<^verbatim>\<open>{}\<close> with both pointers null it
  returns the payload of its \<^verbatim>\<open>#else\<close> branch.
\<close>

theorem completion_not_loaded_counterexample:
  \<open>\<not> loaded unloaded \<and>
   fst (chatCompletion False ''{}'' unloaded) \<noteq> ''{"error":"Model not loaded"}'' \<and>
   fst (chatCompletion False ''{}'' unloaded) =
     ''{"error":"llama.cpp not available in this build"}''\<close>
  by (simp add: chatCompletion_def loaded_def unloaded_def)

text \<open>
  C4, amended. Whenever the guard finds the model pointer or the context pointer null,
  \<^verbatim>\<open>chatCompletion\<close> returns a fixed error-shaped text as its ordinary result, for every
  request, and hands the globals back as they were. In the build with the library the text
  is \<^verbatim>\<open>{"error":"Model not loaded"}\<close>; in the build without it the text is
  \<^verbatim>\<open>{"error":"llama.cpp not available in this build"}\<close>. Either text reads as an object whose
  only member is \<^verbatim>\<open>error\<close>, holding the message.
\<close>

theorem completion_not_loaded:
  \<open>\<not> loaded g \<Longrightarrow>
    chatCompletion True requestJson g = (''{"error":"Model not loaded"}'', g) \<and>
    error_message (fst (chatCompletion True requestJson g)) = Some ''Model not loaded'' \<and>
    chatCompletion False requestJson g =
      (''{"error":"llama.cpp not available in this build"}'', g) \<and>
    error_message (fst (chatCompletion False requestJson g)) =
      Some ''llama.cpp not available in this build''\<close>
proof -
  assume "\<not> loaded g"
  then have r: \<open>chatCompletion True requestJson g = (''{"error":"Model not loaded"}'', g)\<close>
    by (auto simp add: chatCompletion_def loaded_def)
  have u: \<open>chatCompletion False requestJson g =
      (''{"error":"llama.cpp not available in this build"}'', g)\<close>
    by (simp add: chatCompletion_def)
  show ?thesis
    unfolding r u fst_conv
    by (simp add: error_message_not_loaded error_message_not_available)
qed

theorem completion_not_loaded_witness:
  \<open>\<not> loaded unloaded \<and>
   chatCompletion True ''{"messages":[]}'' unloaded = (''{"error":"Model not loaded"}'', unloaded) \<and>
   chatCompletion False ''{"messages":[]}'' unloaded =
     (''{"error":"llama.cpp not available in this build"}'', unloaded)\<close>
proof -
  have h: "\<not> loaded unloaded"
    by (simp add: loaded_def unloaded_def)
  show ?thesis
    using h completion_not_loaded [OF h, of \<open>''{"messages":[]}''\<close>] by blast
qed

text \<open>
  C7. In the build with the library, whenever both pointers are non-null, \<^verbatim>\<open>chatCompletion\<close>
  returns the same fixed text for every request string, valid JSON or not, and leaves the
  globals alone. The text is well formed: it reads as an object in which
  \<^verbatim>\<open>choices[0].message.role\<close> is \<^verbatim>\<open>"assistant"\<close>, \<^verbatim>\<open>choices[0].message.content\<close> is the string
  saying that local inference is not yet fully implemented, \<^verbatim>\<open>choices[0].finish_reason\<close> is
  \<^verbatim>\<open>"stop"\<close>, and the three counts under \<^verbatim>\<open>usage\<close> are 0.
\<close>

theorem completion_loaded:
  "loaded g \<Longrightarrow>
    chatCompletion True requestJson g = (completion_response, g) \<and>
    parse_json (fst (chatCompletion True requestJson g)) = Some completion_response_json \<and>
    payload_at [Key ''choices'', Index 0, Key ''message'', Key ''role'']
      (fst (chatCompletion True requestJson g)) = Some (JString ''assistant'') \<and>
    payload_at [Key ''choices'', Index 0, Key ''message'', Key ''content'']
      (fst (chatCompletion True requestJson g)) =
        Some (JString ''Local model inference is not yet fully implemented.'') \<and>
    payload_at [Key ''choices'', Index 0, Key ''finish_reason'']
      (fst (chatCompletion True requestJson g)) = Some (JString ''stop'') \<and>
    payload_at [Key ''usage'', Key ''prompt_tokens'']
      (fst (chatCompletion True requestJson g)) = Some (JNumber 0) \<and>
    payload_at [Key ''usage'', Key ''completion_tokens'']
      (fst (chatCompletion True requestJson g)) = Some (JNumber 0) \<and>
    payload_at [Key ''usage'', Key ''total_tokens'']
      (fst (chatCompletion True requestJson g)) = Some (JNumber 0)"
proof -
  assume "loaded g"
  then have r: "chatCompletion True requestJson g = (completion_response, g)"
    by (auto simp add: chatCompletion_def loaded_def)
  show ?thesis
    unfolding r fst_conv
    by (simp add: parse_completion_response completion_payload_fields)
qed

theorem completion_loaded_witness:
  "loaded \<lparr>g_model = Some 1, g_ctx = Some 2\<rparr> \<and>
   chatCompletion True ''not json at all'' \<lparr>g_model = Some 1, g_ctx = Some 2\<rparr> =
     (completion_response, \<lparr>g_model = Some 1, g_ctx = Some 2\<rparr>) \<and>
   payload_at [Key ''choices'', Index 0, Key ''message'', Key ''role'']
     (fst (chatCompletion True ''not json at all'' \<lparr>g_model = Some 1, g_ctx = Some 2\<rparr>)) =
       Some (JString ''assistant'')"
proof -
  have h: "loaded \<lparr>g_model = Some 1, g_ctx = Some 2\<rparr>"
    by (simp add: loaded_def)
  show ?thesis
    using h completion_loaded [OF h, of "''not json at all''"] by blast
qed

subsection \<open>chatCompletionStream\<close>

text \<open>
  C3. Whenever the model pointer or the context pointer is null, \<^verbatim>\<open>chatCompletionStream\<close>
  makes exactly one callback invocation, \<^verbatim>\<open>onError\<close> with a fixed message, and returns with
  the globals as they were; \<^verbatim>\<open>onToken\<close> and \<^verbatim>\<open>onComplete\<close> are not invoked. The message is
  \<^verbatim>\<open>Model not loaded\<close> in the build with the library; the build without it has its own
  fixed message.
\<close>

theorem stream_not_loaded:
  "\<not> loaded g \<Longrightarrow>
    chatCompletionStream av requestJson g =
      ([OnError (if av then ''Model not loaded'' else ''llama.cpp not available'')], g) \<and>
    invocations is_OnError (fst (chatCompletionStream av requestJson g)) = 1 \<and>
    invocations is_OnToken (fst (chatCompletionStream av requestJson g)) = 0 \<and>
    invocations is_OnComplete (fst (chatCompletionStream av requestJson g)) = 0"
  by (auto simp add: chatCompletionStream_def loaded_def invocations_def)

theorem stream_not_loaded_witness:
  "\<not> loaded unloaded \<and>
   chatCompletionStream True ''{}'' unloaded = ([OnError ''Model not loaded''], unloaded)"
proof -
  have h: "\<not> loaded unloaded"
    by (simp add: loaded_def unloaded_def)
  show ?thesis
    using h stream_not_loaded [OF h, of True "''{}''"] by simp
qed

text \<open>
  C6. In the build with the library, whenever both pointers are non-null,
  \<^verbatim>\<open>chatCompletionStream\<close> invokes \<^verbatim>\<open>onToken\<close> exactly once with the fixed placeholder string
  and then \<^verbatim>\<open>onComplete\<close> exactly once with the fixed final payload, which is well formed;
  \<^verbatim>\<open>onError\<close> is not invoked, and the globals are left alone.
\<close>

theorem stream_loaded:
  "loaded g \<Longrightarrow>
    chatCompletionStream True requestJson g =
      ([OnToken ''Local model streaming is not yet fully implemented.'',
        OnComplete stream_response], g) \<and>
    invocations is_OnToken (fst (chatCompletionStream True requestJson g)) = 1 \<and>
    invocations is_OnComplete (fst (chatCompletionStream True requestJson g)) = 1 \<and>
    invocations is_OnError (fst (chatCompletionStream True requestJson g)) = 0 \<and>
    parse_json stream_response = Some stream_response_json"
  by (auto simp add: chatCompletionStream_def loaded_def invocations_def parse_stream_response)

theorem stream_loaded_witness:
  "loaded \<lparr>g_model = Some 1, g_ctx = Some 2\<rparr> \<and>
   fst (chatCompletionStream True ''{}'' \<lparr>g_model = Some 1, g_ctx = Some 2\<rparr>) =
     [OnToken ''Local model streaming is not yet fully implemented.'', OnComplete stream_response]"
proof -
  have h: "loaded \<lparr>g_model = Some 1, g_ctx = Some 2\<rparr>"
    by (simp add: loaded_def)
  show ?thesis
    using h stream_loaded [OF h, of "''{}''"] by simp
qed

text \<open>
  A trace of one of the two valid shapes never has \<^verbatim>\<open>onToken\<close> after a terminal invocation.
\<close>

lemma tokens_then_complete_no_token_after:
  "tokens_then_complete tr \<Longrightarrow> no_token_after_terminal tr"
  by (induction tr rule: tokens_then_complete.induct) simp_all

lemma single_error_no_token_after:
  "single_error tr \<Longrightarrow> no_token_after_terminal tr"
  by (induction tr rule: single_error.induct) simp_all

lemma valid_stream_trace_no_token_after:
  "valid_stream_trace tr \<Longrightarrow> no_token_after_terminal tr"
  unfolding valid_stream_trace_def
  using tokens_then_complete_no_token_after single_error_no_token_after by blast

text \<open>
  C5. For every call of \<^verbatim>\<open>chatCompletionStream\<close>, in either build, in every state of the
  globals and for every request, the callback invocations are exactly one of: a run of
  \<^verbatim>\<open>onToken\<close> followed by one \<^verbatim>\<open>onComplete\<close>, or one \<^verbatim>\<open>onError\<close> alone; and \<^verbatim>\<open>onToken\<close> is never
  invoked after \<^verbatim>\<open>onComplete\<close> or \<^verbatim>\<open>onError\<close>.
\<close>

theorem stream_callback_order:
  "valid_stream_trace (fst (chatCompletionStream av requestJson g)) \<and>
   no_token_after_terminal (fst (chatCompletionStream av requestJson g))"
  by (simp add: chatCompletionStream_def valid_stream_trace_def)

theorem stream_callback_order_witness:
  "valid_stream_trace (fst (chatCompletionStream True ''{}'' \<lparr>g_model = Some 1, g_ctx = Some 2\<rparr>)) \<and>
   valid_stream_trace (fst (chatCompletionStream True ''{}'' unloaded)) \<and>
   valid_stream_trace (fst (chatCompletionStream False ''{}'' unloaded))"
  using stream_callback_order [of True "''{}''" "\<lparr>g_model = Some 1, g_ctx = Some 2\<rparr>"]
    stream_callback_order [of True "''{}''" unloaded]
    stream_callback_order [of False "''{}''" unloaded]
  by simp

subsection \<open>The build without the library\<close>

text \<open>
  C9, as stated, fails: in the build without the library the two functions do not give
  what they give when nothing is loaded. At the request \<^verbatim>\<open>{}\<close> with both pointers null the
  returned payloads differ, and so do the callback invocations.
\<close>

theorem unavailable_same_as_not_loaded_counterexample:
  \<open>fst (chatCompletion False ''{}'' unloaded) \<noteq> fst (chatCompletion True ''{}'' unloaded) \<and>
   fst (chatCompletionStream False ''{}'' unloaded) \<noteq>
     fst (chatCompletionStream True ''{}'' unloaded)\<close>
  by (simp add: chatCompletion_def chatCompletionStream_def unloaded_def)

text \<open>
  C9, amended. The build without the library reports through the same two channels as the
  not-loaded case, each with a message of its own. \<^verbatim>\<open>chatCompletion\<close> returns an object
  whose only member is \<^verbatim>\<open>error\<close>: the message is \<^verbatim>\<open>llama.cpp not available in this build\<close>
  without the library and \<^verbatim>\<open>Model not loaded\<close> when nothing is loaded.
  \<^verbatim>\<open>chatCompletionStream\<close> makes a single \<^verbatim>\<open>onError\<close> invocation and no other: the message is
  \<^verbatim>\<open>llama.cpp not available\<close> without the library and \<^verbatim>\<open>Model not loaded\<close> when nothing is
  loaded. Without the library neither function touches the globals.
\<close>

theorem unavailable_same_channel:
  "\<not> loaded g' \<Longrightarrow>
    error_message (fst (chatCompletion False requestJson g)) =
      Some ''llama.cpp not available in this build'' \<and>
    error_message (fst (chatCompletion True requestJson g')) = Some ''Model not loaded'' \<and>
    fst (chatCompletionStream False requestJson g) = [OnError ''llama.cpp not available''] \<and>
    fst (chatCompletionStream True requestJson g') = [OnError ''Model not loaded''] \<and>
    snd (chatCompletion False requestJson g) = g \<and>
    snd (chatCompletionStream False requestJson g) = g"
proof -
  assume "\<not> loaded g'"
  then have n: "g_model g' = None \<or> g_ctx g' = None"
    by (simp add: loaded_def)
  have a: \<open>chatCompletion False requestJson g =
      (''{"error":"llama.cpp not available in this build"}'', g)\<close>
    by (simp add: chatCompletion_def)
  have b: \<open>chatCompletion True requestJson g' = (''{"error":"Model not loaded"}'', g')\<close>
    using n by (auto simp add: chatCompletion_def)
  have c: "chatCompletionStream False requestJson g = ([OnError ''llama.cpp not available''], g)"
    by (simp add: chatCompletionStream_def)
  have d: "chatCompletionStream True requestJson g' = ([OnError ''Model not loaded''], g')"
    using n by (auto simp add: chatCompletionStream_def)
  show ?thesis
    unfolding a b c d fst_conv snd_conv
    by (simp add: error_message_not_loaded error_message_not_available)
qed

theorem unavailable_same_channel_witness:
  "\<not> loaded unloaded \<and>
   error_message (fst (chatCompletion False ''{}'' \<lparr>g_model = Some 1, g_ctx = Some 2\<rparr>)) =
      Some ''llama.cpp not available in this build'' \<and>
   error_message (fst (chatCompletion True ''{}'' unloaded)) = Some ''Model not loaded''"
proof -
  have h: "\<not> loaded unloaded"
    by (simp add: loaded_def unloaded_def)
  show ?thesis
    using h unavailable_same_channel [OF h, of "''{}''" "\<lparr>g_model = Some 1, g_ctx = Some 2\<rparr>"]
    by blast
qed

subsection \<open>The request is never read\<close>

text \<open>
  C10. For every build and every state of the globals, two calls that differ only in the
  request string give the same result: \<^verbatim>\<open>chatCompletion\<close> returns the same response string
  and \<^verbatim>\<open>chatCompletionStream\<close> makes the same callback invocations, and both leave the
  same globals.
\<close>

theorem request_independence:
  "chatCompletion av r1 g = chatCompletion av r2 g \<and>
   chatCompletionStream av r1 g = chatCompletionStream av r2 g"
  by (simp add: chatCompletion_def chatCompletionStream_def)

theorem request_independence_witness:
  \<open>chatCompletion True ''{"messages":[]}'' \<lparr>g_model = Some 1, g_ctx = Some 2\<rparr> =
     chatCompletion True ''drop table'' \<lparr>g_model = Some 1, g_ctx = Some 2\<rparr> \<and>
   chatCompletionStream True ''{"messages":[]}'' unloaded =
     chatCompletionStream True ''drop table'' unloaded\<close>
  using request_independence
      [where av = True and ?r1.0 = \<open>''{"messages":[]}''\<close> and ?r2.0 = "''drop table''"
         and g = "\<lparr>g_model = Some 1, g_ctx = Some 2\<rparr>"]
    request_independence
      [where av = True and ?r1.0 = \<open>''{"messages":[]}''\<close> and ?r2.0 = "''drop table''"
         and g = unloaded]
  by blast

end
